theory Spec2Isabelle
  imports Main "HOL-Library.Word"
begin

section \<open>The webhook listener of skills/activepieces-orchestrator/scripts/webhook-server.py\<close>

text \<open>
  The development embeds the class \<open>WebhookHandler\<close>: the construction of the
  envelope \<open>(action, message, data)\<close> from a POST body, the dispatch in
  \<open>handle_action\<close> and the five action handlers. Python text is a \<open>string\<close>; each
  \<open>char\<close> stands for one code point below 256. Exceptions are values: a handler returns
  \<open>Inl e\<close> where the Python raises \<open>e\<close> and does not catch it. What a handler prints and
  which commands it hands to \<open>subprocess.run\<close> is returned beside the result, as a list
  of events in the order of execution.
\<close>

subsection \<open>Values\<close>

text \<open>
  What \<open>json.loads\<close> can return. A float is kept as its IEEE-754 binary64 bit pattern; a
  dict is the list of its items in insertion order, and \<open>json.loads\<close> gives every key once.
\<close>

datatype json =
    JNull
  | JBool bool
  | JInt int
  | JFloat "64 word"
  | JStr string
  | JList "json list"
  | JDict "(string \<times> json) list"

type_synonym pydict = "(string \<times> json) list"

text \<open>\<open>d.get(key, default)\<close>\<close>

definition dict_get :: "pydict \<Rightarrow> string \<Rightarrow> json \<Rightarrow> json" where
  "dict_get d key dflt = (case map_of d key of Some v \<Rightarrow> v | None \<Rightarrow> dflt)"

text \<open>
  Truth value testing, as in \<open>if not command\<close> and \<open>if raw_message\<close>: \<open>None\<close>, \<open>False\<close>,
  zero and the empty containers are false. A float is zero when all bits but the sign
  are clear.
\<close>

fun truthy :: "json \<Rightarrow> bool" where
  "truthy JNull = False"
| "truthy (JBool b) = b"
| "truthy (JInt i) = (i \<noteq> 0)"
| "truthy (JFloat w) = (take_bit 63 w \<noteq> 0)"
| "truthy (JStr s) = (s \<noteq> [])"
| "truthy (JList xs) = (xs \<noteq> [])"
| "truthy (JDict kvs) = (kvs \<noteq> [])"

subsection \<open>Text\<close>

text \<open>
  \<open>str.isspace\<close> on the code points below 256: TAB to CR, FS to US, the space, NEL and
  the no-break space.
\<close>

definition isspace :: "char \<Rightarrow> bool" where
  "isspace c =
     (let n = (of_char c :: nat)
      in (9 \<le> n \<and> n \<le> 13) \<or> (28 \<le> n \<and> n \<le> 32) \<or> n = 133 \<or> n = 160)"

text \<open>\<open>s.strip()\<close>\<close>

definition strip :: "string \<Rightarrow> string" where
  "strip s = rev (dropWhile isspace (rev (dropWhile isspace s)))"

text \<open>\<open>s.replace(old, new)\<close> for a one-character \<open>old\<close>, the only form the handlers use.\<close>

definition replace :: "string \<Rightarrow> char \<Rightarrow> string \<Rightarrow> string" where
  "replace s old new = concat (map (\<lambda>c. if c = old then new else [c]) s)"

text \<open>\<open>s.startswith(p)\<close>\<close>

definition startswith :: "string \<Rightarrow> string \<Rightarrow> bool" where
  "startswith s p = (take (length p) s = p)"

abbreviation (input) dquote :: string where
  "dquote \<equiv> [CHR 0x22]"

abbreviation (input) squote :: string where
  "squote \<equiv> [CHR 0x27]"

subsection \<open>Exceptions, processes and the log\<close>

datatype cmd =
    Argv "string list"
  | Shell string

text \<open>
  The exceptions the handler code can meet. \<open>ValueError\<close> and \<open>OSError\<close> carry their
  message; \<open>OSError\<close> stands for its subclasses too (\<open>FileNotFoundError\<close> for a missing
  executable, for one). \<open>JSONDecodeError\<close> is a subclass of \<open>ValueError\<close>;
  \<open>RecursionError\<close> is what \<open>json.loads\<close> raises on text that is nested deeper than the
  interpreter allows.
\<close>

datatype exn =
    AttributeError
  | TypeError
  | ValueError string
  | JSONDecodeError
  | RecursionError
  | CalledProcessError cmd int
  | TimeoutExpired cmd nat
  | OSError string

text \<open>What \<open>except (json.JSONDecodeError, ValueError)\<close> catches.\<close>

fun is_value_error :: "exn \<Rightarrow> bool" where
  "is_value_error JSONDecodeError = True"
| "is_value_error (ValueError msg) = True"
| "is_value_error e = False"

datatype event =
    DebugLine nat string
  | RequestLine string json
  | LogDump pydict
  | Run cmd
  | Kill cmd

text \<open>
  What the operating system does with a command: it cannot be started (with the message
  of the \<open>OSError\<close>), or it runs for a number of seconds (rounded up) and exits with a
  return code and its two output streams. A command started without a timeout is waited
  for until it exits.
\<close>

datatype proc_outcome =
    Exited nat int string string
  | Fails string

record completed =
  returncode :: int
  stdout :: string
  stderr :: string

text \<open>
  The parts of the Python library and of the host that the script calls and the repository
  does not define, taken as parameters: \<open>json.loads\<close> (\<open>Inl e\<close> when it raises \<open>e\<close>,
  whatever the exception), \<open>json.dumps\<close>, \<open>str\<close> on a value that is not text, \<open>str\<close> on
  an exception of the \<open>subprocess\<close> module, and the outcome of each command.
\<close>

record env =
  json_loads :: "string \<Rightarrow> exn + json"
  json_dumps :: "json \<Rightarrow> string"
  py_str :: "json \<Rightarrow> string"
  exn_str :: "exn \<Rightarrow> string"
  os_outcome :: "cmd \<Rightarrow> proc_outcome"

text \<open>
  \<open>str(e)\<close> on an exception, and a value interpolated into an f-string: text as it is,
  anything else through \<open>str\<close>.
\<close>

definition str_of_exn :: "env \<Rightarrow> exn \<Rightarrow> string" where
  "str_of_exn E e =
     (case e of ValueError msg \<Rightarrow> msg | OSError msg \<Rightarrow> msg | _ \<Rightarrow> exn_str E e)"

definition format_value :: "env \<Rightarrow> json \<Rightarrow> string" where
  "format_value E v = (case v of JStr s \<Rightarrow> s | _ \<Rightarrow> py_str E v)"

text \<open>
  \<open>subprocess.run(c, check=..., capture_output=True, timeout=...)\<close>. The arguments go to
  the operating system as C strings, so one that holds a NUL character is refused with
  \<open>ValueError\<close> before anything is started; \<open>shell=True\<close> runs \<open>/bin/sh -c\<close> on the
  command. With a timeout, a child that runs longer is killed and \<open>TimeoutExpired\<close> is
  raised; with \<open>check\<close>, a non-zero return code raises \<open>CalledProcessError\<close>.
\<close>

fun cmd_args :: "cmd \<Rightarrow> string list" where
  "cmd_args (Argv args) = args"
| "cmd_args (Shell command) = [''/bin/sh'', ''-c'', command]"

definition subprocess_run ::
  "env \<Rightarrow> cmd \<Rightarrow> bool \<Rightarrow> nat option \<Rightarrow> (exn + completed) \<times> event list" where
  "subprocess_run E c check timeout =
     (if list_ex (\<lambda>arg. CHR 0x00 \<in> set arg) (cmd_args c)
      then (Inl (ValueError ''embedded null byte''), [Run c])
      else case os_outcome E c of
        Fails msg \<Rightarrow> (Inl (OSError msg), [Run c])
      | Exited runtime rc out err \<Rightarrow>
          (let finished =
                 (if check \<and> rc \<noteq> 0 then (Inl (CalledProcessError c rc), [Run c])
                  else (Inr \<lparr>returncode = rc, stdout = out, stderr = err\<rparr>, [Run c]))
           in case timeout of
                Some limit \<Rightarrow>
                  (if limit < runtime then (Inl (TimeoutExpired c limit), [Run c, Kill c])
                   else finished)
              | None \<Rightarrow> finished))"

subsection \<open>The action handlers\<close>

type_synonym action_result = "(exn + pydict) \<times> event list"

definition action_notify :: "env \<Rightarrow> json \<Rightarrow> pydict \<Rightarrow> action_result" where
  "action_notify E message data =
     (let title = dict_get data ''title'' (JStr ''ActivePieces'');
          sound = dict_get data ''sound'' (JStr ''Glass'')
      in case message of
           JStr m \<Rightarrow>
             (let clean_msg = replace (replace (replace m (CHR 0x22) squote) (CHR 0x5C) []) (CHR 0x0A) '' ''
              in case title of
                   JStr t \<Rightarrow>
                     (let clean_title = replace t (CHR 0x22) squote;
                          script = ''display notification '' @ dquote @ clean_msg @ dquote
                                   @ '' with title '' @ dquote @ clean_title @ dquote
                                   @ '' sound name '' @ dquote @ format_value E sound @ dquote
                      in case subprocess_run E (Argv [''osascript'', ''-e'', script]) True None of
                           (Inr _, evs) \<Rightarrow>
                             (Inr [(''success'', JBool True), (''action'', JStr ''notify''),
                                   (''message'', message)], evs)
                         | (Inl (CalledProcessError c rc), evs) \<Rightarrow>
                             (Inr [(''success'', JBool False),
                                   (''error'', JStr (str_of_exn E (CalledProcessError c rc)))], evs)
                         | (Inl e, evs) \<Rightarrow> (Inl e, evs))
                 | _ \<Rightarrow> (Inl AttributeError, []))
         | _ \<Rightarrow> (Inl AttributeError, []))"

definition action_sound :: "env \<Rightarrow> json \<Rightarrow> pydict \<Rightarrow> action_result" where
  "action_sound E message data =
     (let sound = dict_get data ''sound'' (JStr ''Glass'');
          script = ''do shell script '' @ dquote @ ''afplay /System/Library/Sounds/''
                   @ format_value E sound @ ''.aiff'' @ dquote;
          ok = [(''success'', JBool True), (''action'', JStr ''sound''), (''sound'', sound)]
      in case subprocess_run E (Argv [''osascript'', ''-e'', script]) True None of
           (Inr _, evs) \<Rightarrow> (Inr ok, evs)
         | (Inl (CalledProcessError c rc), evs) \<Rightarrow>
             (case subprocess_run E
                     (Argv [''afplay'', ''/System/Library/Sounds/'' @ format_value E sound @ ''.aiff''])
                     False None of
                (Inr _, evs') \<Rightarrow> (Inr ok, evs @ evs')
              | (Inl e, evs') \<Rightarrow> (Inl e, evs @ evs'))
         | (Inl e, evs) \<Rightarrow> (Inl e, evs))"

text \<open>
  In \<open>action_say\<close> the voice goes into the argument list as it is; \<open>subprocess.run\<close> raises
  \<open>TypeError\<close> on an argument that is not text, before it starts anything.
\<close>

definition action_say :: "env \<Rightarrow> json \<Rightarrow> pydict \<Rightarrow> action_result" where
  "action_say E message data =
     (let voice = dict_get data ''voice'' (JStr ''Samantha'')
      in case message of
           JStr m \<Rightarrow>
             (let clean_msg = replace m (CHR 0x22) squote
              in case voice of
                   JStr v \<Rightarrow>
                     (case subprocess_run E (Argv [''say'', ''-v'', v, clean_msg]) True None of
                        (Inr _, evs) \<Rightarrow>
                          (Inr [(''success'', JBool True), (''action'', JStr ''say''),
                                (''message'', message)], evs)
                      | (Inl (CalledProcessError c rc), evs) \<Rightarrow>
                          (Inr [(''success'', JBool False),
                                (''error'', JStr (str_of_exn E (CalledProcessError c rc)))], evs)
                      | (Inl e, evs) \<Rightarrow> (Inl e, evs))
                 | _ \<Rightarrow> (Inl TypeError, []))
         | _ \<Rightarrow> (Inl AttributeError, []))"

definition action_log :: "env \<Rightarrow> json \<Rightarrow> pydict \<Rightarrow> action_result" where
  "action_log E message data =
     (Inr [(''success'', JBool True), (''action'', JStr ''log''), (''message'', message)],
      [LogDump data])"

definition allowed_prefixes :: "string list" where
  "allowed_prefixes = [''open '', ''say '', ''afplay '', ''osascript '']"

definition action_execute :: "env \<Rightarrow> json \<Rightarrow> pydict \<Rightarrow> action_result" where
  "action_execute E message data =
     (let command = dict_get data ''command'' (JStr '''')
      in if \<not> truthy command
         then (Inr [(''success'', JBool False), (''error'', JStr ''No command provided'')], [])
         else case command of
           JStr c \<Rightarrow>
             (if \<not> list_ex (startswith c) allowed_prefixes
              then (Inr [(''success'', JBool False), (''error'', JStr ''Command not allowed'')], [])
              else case subprocess_run E (Shell c) False (Some 30) of
                     (Inr result, evs) \<Rightarrow>
                       (Inr [(''success'', JBool (returncode result = 0)),
                             (''action'', JStr ''execute''),
                             (''stdout'', JStr (stdout result)),
                             (''stderr'', JStr (stderr result))], evs)
                   | (Inl (TimeoutExpired c' limit), evs) \<Rightarrow>
                       (Inr [(''success'', JBool False), (''error'', JStr ''Command timed out'')], evs)
                   | (Inl e, evs) \<Rightarrow>
                       (Inr [(''success'', JBool False), (''error'', JStr (str_of_exn E e))], evs))
         | _ \<Rightarrow> (Inl AttributeError, []))"

subsection \<open>Dispatch\<close>

definition actions :: "env \<Rightarrow> (string \<times> (json \<Rightarrow> pydict \<Rightarrow> action_result)) list" where
  "actions E =
     [(''notify'', action_notify E),
      (''notification'', action_notify E),
      (''sound'', action_sound E),
      (''say'', action_say E),
      (''log'', action_log E),
      (''execute'', action_execute E)]"

definition handle_action :: "env \<Rightarrow> string \<Rightarrow> json \<Rightarrow> pydict \<Rightarrow> action_result" where
  "handle_action E action message data =
     (case map_of (actions E) action of
        Some handler \<Rightarrow> handler message data
      | None \<Rightarrow> action_notify E message data)"

subsection \<open>The POST handler\<close>

text \<open>
  Lines 35 to 57 of \<open>do_POST\<close>: the envelope. The empty body is not parsed. Of the
  exceptions of \<open>json.loads\<close> the \<open>try\<close> catches \<open>JSONDecodeError\<close> and \<open>ValueError\<close>; any
  other one leaves \<open>do_POST\<close>. A body that parses to something other than a dict reaches
  \<open>data.get\<close>, which such a value does not have.
\<close>

definition envelope :: "env \<Rightarrow> string \<Rightarrow> exn + (json \<times> json \<times> pydict)" where
  "envelope E body =
     (case (case (if body \<noteq> [] then json_loads E body else Inr (JDict [])) of
              Inr v \<Rightarrow> Inr (v, True)
            | Inl e \<Rightarrow> if is_value_error e then Inr (JDict [], False) else Inl e) of
        Inl e \<Rightarrow> Inl e
      | Inr (data, is_json) \<Rightarrow>
          if \<not> is_json \<and> strip body \<noteq> []
          then (let message = JStr (strip body)
                in Inr (JStr ''notify'', message,
                        [(''title'', JStr ''Email AI Analysis''), (''message'', message)]))
          else case data of
            JDict d \<Rightarrow>
              (let raw_message =
                     dict_get d ''message'' (dict_get d ''text''
                       (dict_get d ''raw'' (JStr ''Webhook received'')));
                   message =
                     (case raw_message of
                        JDict r \<Rightarrow>
                          dict_get r ''result'' (dict_get r ''text''
                            (dict_get r ''content'' (JStr (json_dumps E raw_message))))
                      | JStr s \<Rightarrow>
                          (if strip s \<noteq> [] then raw_message else JStr ''No message content'')
                      | _ \<Rightarrow>
                          (if truthy raw_message then JStr (py_str E raw_message)
                           else JStr ''No message content''))
               in Inr (dict_get d ''action'' (JStr ''notify''), message, d))
          | _ \<Rightarrow> Inl AttributeError)"

record response =
  status :: nat
  headers :: "(string \<times> string) list"
  payload :: pydict

text \<open>
  \<open>do_POST\<close> from the decoded body on. The request line of the log needs
  \<open>action.upper()\<close>, which only text has, and \<open>message[:100]\<close>, which text and lists have
  (a dict raises \<open>KeyError\<close> instead from Python 3.12 on); the line is recorded by the two
  values it shows.
\<close>

definition do_POST :: "env \<Rightarrow> string \<Rightarrow> (exn + response) \<times> event list" where
  "do_POST E body =
     (let debug = [DebugLine (length body) (take 500 body)]
      in case envelope E body of
           Inl e \<Rightarrow> (Inl e, debug)
         | Inr (action, message, data) \<Rightarrow>
             (case action of
                JStr a \<Rightarrow>
                  (case (case message of
                           JStr m \<Rightarrow> Some (JStr (take 100 m))
                         | JList xs \<Rightarrow> Some (JList (take 100 xs))
                         | _ \<Rightarrow> None) of
                     Some shown \<Rightarrow>
                       (case handle_action E a message data of
                          (Inr result, evs) \<Rightarrow>
                            (Inr \<lparr>status = 200,
                                  headers = [(''Content-Type'', ''application/json''),
                                             (''Access-Control-Allow-Origin'', ''*'')],
                                  payload = result\<rparr>,
                             debug @ [RequestLine a shown] @ evs)
                        | (Inl e, evs) \<Rightarrow> (Inl e, debug @ [RequestLine a shown] @ evs))
                   | None \<Rightarrow> (Inl TypeError, debug))
              | _ \<Rightarrow> (Inl AttributeError, debug)))"

section \<open>Notions of the specification\<close>

text \<open>
  First-present-wins over a list of keys: the value of the first key that the mapping
  has, whatever that value is, and the default when it has none of them.
\<close>

fun first_present :: "string list \<Rightarrow> pydict \<Rightarrow> json \<Rightarrow> json" where
  "first_present [] d dflt = dflt"
| "first_present (k # ks) d dflt =
     (case map_of d k of Some v \<Rightarrow> v | None \<Rightarrow> first_present ks d dflt)"

text \<open>An empty or blank text: nothing in it but white space.\<close>

definition blank :: "string \<Rightarrow> bool" where
  "blank s = list_all isspace s"

text \<open>
  The action and the message of a JSON object as the specification words them: the
  action is \<open>data.action or "notify"\<close>; the message is the first-present value, replaced
  when it is a mapping or a blank text and kept otherwise.
\<close>

definition claimed_action :: "pydict \<Rightarrow> json" where
  "claimed_action d =
     (case map_of d ''action'' of
        Some a \<Rightarrow> if truthy a then a else JStr ''notify''
      | None \<Rightarrow> JStr ''notify'')"

definition claimed_message :: "env \<Rightarrow> pydict \<Rightarrow> json" where
  "claimed_message E d =
     (let raw = first_present [''message'', ''text'', ''raw''] d (JStr ''Webhook received'')
      in case raw of
           JDict r \<Rightarrow> first_present [''result'', ''text'', ''content''] r
                        (JStr (json_dumps E raw))
         | JStr s \<Rightarrow> if blank s then JStr ''No message content'' else raw
         | _ \<Rightarrow> raw)"

text \<open>The plain-text interpretation of a body.\<close>

definition plain_text_envelope :: "string \<Rightarrow> json \<times> json \<times> pydict" where
  "plain_text_envelope body =
     (JStr ''notify'', JStr (strip body),
      [(''title'', JStr ''Email AI Analysis''), (''message'', JStr (strip body))])"

text \<open>Two names that differ by letter case only.\<close>

definition ascii_lower :: "char \<Rightarrow> char" where
  "ascii_lower c =
     (case map_of (zip ''ABCDEFGHIJKLMNOPQRSTUVWXYZ'' ''abcdefghijklmnopqrstuvwxyz'') c of
        Some l \<Rightarrow> l
      | None \<Rightarrow> c)"

definition differs_only_by_case :: "string \<Rightarrow> string \<Rightarrow> bool" where
  "differs_only_by_case a r = (a \<noteq> r \<and> map ascii_lower a = map ascii_lower r)"




section \<open>An example host\<close>

text \<open>
  Six JSON bodies, \<open>{"text":"hi"}\<close>, \<open>{"message":{"result":"r"}}\<close>, \<open>{"action": 5}\<close>,
  \<open>{"action":"frobnicate","message":{"result":5}}\<close>, \<open>{"action":""}\<close> and
  \<open>{"message":0}\<close>, with what \<open>json.loads\<close> makes of them; the other bodies of the
  examples (\<open>hello world\<close>, a single space) are not JSON and make it raise
  \<open>JSONDecodeError\<close>.
\<close>

definition body_text_hi :: string where
  "body_text_hi = ''{'' @ dquote @ ''text'' @ dquote @ '':'' @ dquote @ ''hi'' @ dquote @ ''}''"

definition body_message_result :: string where
  "body_message_result =
     ''{'' @ dquote @ ''message'' @ dquote @ '':{'' @ dquote @ ''result'' @ dquote @ '':''
     @ dquote @ ''r'' @ dquote @ ''}}''"

definition body_action_number :: string where
  "body_action_number = ''{'' @ dquote @ ''action'' @ dquote @ '': 5}''"

definition body_frobnicate_number :: string where
  "body_frobnicate_number =
     ''{'' @ dquote @ ''action'' @ dquote @ '':'' @ dquote @ ''frobnicate'' @ dquote @ '',''
     @ dquote @ ''message'' @ dquote @ '':{'' @ dquote @ ''result'' @ dquote @ '':5}}''"

definition body_action_empty :: string where
  "body_action_empty = ''{'' @ dquote @ ''action'' @ dquote @ '':'' @ dquote @ dquote @ ''}''"

definition body_message_zero :: string where
  "body_message_zero = ''{'' @ dquote @ ''message'' @ dquote @ '':0}''"

definition sample_loads :: "string \<Rightarrow> exn + json" where
  "sample_loads body =
     (if body = body_text_hi then Inr (JDict [(''text'', JStr ''hi'')])
      else if body = body_message_result
        then Inr (JDict [(''message'', JDict [(''result'', JStr ''r'')])])
      else if body = body_action_number then Inr (JDict [(''action'', JInt 5)])
      else if body = body_frobnicate_number
        then Inr (JDict [(''action'', JStr ''frobnicate''),
                         (''message'', JDict [(''result'', JInt 5)])])
      else if body = body_action_empty then Inr (JDict [(''action'', JStr [])])
      else if body = body_message_zero then Inr (JDict [(''message'', JInt 0)])
      else Inl JSONDecodeError)"

text \<open>
  The commands of the examples: one shell command outlives the timeout, one exits with
  code 1, one cannot be started; everything else exits with code 0 within a second. The
  examples reach neither \<open>json.dumps\<close> nor \<open>str\<close> on a value; the two are fixed to the
  renderings of an empty mapping and of the number 5.
\<close>

definition sample_outcome :: "cmd \<Rightarrow> proc_outcome" where
  "sample_outcome c =
     (case c of
        Shell command \<Rightarrow>
          (if command = ''osascript slow.scpt'' then Exited 35 0 [] []
           else if command = ''open /nowhere''
             then Exited 1 1 [] ''The file /nowhere does not exist.''
           else if command = ''say no more processes''
             then Fails ''[Errno 35] Resource temporarily unavailable''
           else Exited 1 0 [] [])
      | Argv args \<Rightarrow> Exited 1 0 [] [])"

definition sample_host :: env where
  "sample_host =
     \<lparr>json_loads = sample_loads,
      json_dumps = (\<lambda>v. ''{}''),
      py_str = (\<lambda>v. ''5''),
      exn_str = (\<lambda>e. ''Command returned non-zero exit status 1.''),
      os_outcome = sample_outcome\<rparr>"

text \<open>A message with double quotes in it: \<open>say "hi"\<close>.\<close>

definition quoted_message :: string where
  "quoted_message = ''say '' @ dquote @ ''hi'' @ dquote"

section \<open>Properties\<close>

subsection \<open>Text and lookup\<close>

lemma startswith_iff: "startswith s p \<longleftrightarrow> (\<exists>rest. s = p @ rest)"
  unfolding startswith_def
proof
  assume "take (length p) s = p"
  then have "s = p @ drop (length p) s"
    by (metis append_take_drop_id)
  then show "\<exists>rest. s = p @ rest" ..
next
  assume "\<exists>rest. s = p @ rest"
  then show "take (length p) s = p" by auto
qed

subsection \<open>Dispatch\<close>

lemma handle_action_names:
  "handle_action E ''notify'' = action_notify E"
  "handle_action E ''notification'' = action_notify E"
  "handle_action E ''sound'' = action_sound E"
  "handle_action E ''say'' = action_say E"
  "handle_action E ''log'' = action_log E"
  "handle_action E ''execute'' = action_execute E"
  by (simp_all add: handle_action_def actions_def fun_eq_iff)

lemma handle_action_unregistered:
  assumes "a \<notin> {''notify'', ''notification'', ''sound'', ''say'', ''log'', ''execute''}"
  shows "handle_action E a = action_notify E"
proof -
  from assms have "map_of (actions E) a = None"
    by (simp add: actions_def)
  then show ?thesis
    by (simp add: handle_action_def fun_eq_iff)
qed

lemma handle_action_registered:
  "handle_action E a \<in>
     {action_notify E, action_sound E, action_say E, action_log E, action_execute E}"
proof (cases "a \<in> {''notify'', ''notification'', ''sound'', ''say'', ''log'', ''execute''}")
  case True
  then show ?thesis
    by (elim insertE emptyE) (simp_all add: handle_action_names)
next
  case False
  then show ?thesis by (simp add: handle_action_unregistered)
qed

lemma registered_lower:
  assumes "r \<in> {''notify'', ''notification'', ''sound'', ''say'', ''log'', ''execute''}"
  shows "map ascii_lower r = r"
  using assms by (elim insertE emptyE) (simp_all add: ascii_lower_def)

lemma case_variant_unregistered:
  assumes r: "r \<in> {''notify'', ''notification'', ''sound'', ''say'', ''log'', ''execute''}"
    and d: "differs_only_by_case a r"
  shows "a \<notin> {''notify'', ''notification'', ''sound'', ''say'', ''log'', ''execute''}"
proof
  assume a: "a \<in> {''notify'', ''notification'', ''sound'', ''say'', ''log'', ''execute''}"
  have "a = map ascii_lower a" using registered_lower [OF a] by simp
  also have "\<dots> = map ascii_lower r" using d by (simp add: differs_only_by_case_def)
  also have "\<dots> = r" by (rule registered_lower [OF r])
  finally have "a = r" .
  with d show False by (simp add: differs_only_by_case_def)
qed

subsection \<open>The allow-list of \<open>execute\<close>\<close>

lemma execute_no_command:
  assumes "map_of data ''command'' = None \<or> map_of data ''command'' = Some (JStr [])"
  shows "action_execute E message data =
           (Inr [(''success'', JBool False), (''error'', JStr ''No command provided'')], [])"
  using assms by (auto simp: action_execute_def dict_get_def)

lemma execute_not_allowed:
  assumes "map_of data ''command'' = Some (JStr c)" and "c \<noteq> []"
    and "\<not> (\<exists>p \<in> set allowed_prefixes. startswith c p)"
  shows "action_execute E message data =
           (Inr [(''success'', JBool False), (''error'', JStr ''Command not allowed'')], [])"
  using assms by (simp add: action_execute_def dict_get_def list_ex_iff)

text \<open>
  C1. A request dispatched to \<open>execute\<close> whose data has no command, or the empty text as
  command, is answered with \<open>No command provided\<close>; one whose command is a text that
  starts with none of \<open>open \<close>, \<open>say \<close>, \<open>afplay \<close>, \<open>osascript \<close> is answered with
  \<open>Command not allowed\<close>. In both cases the list of events is empty: \<open>subprocess.run\<close> is
  not called. The command \<open>rm -rf /\<close> is of the second kind, on every host.
\<close>

theorem execute_rejects:
  "(map_of data ''command'' = None \<or> map_of data ''command'' = Some (JStr '''') \<longrightarrow>
      handle_action E ''execute'' message data =
        (Inr [(''success'', JBool False), (''error'', JStr ''No command provided'')], []))
   \<and> (map_of data ''command'' = Some (JStr c) \<and> c \<noteq> '''' \<and>
       \<not> (\<exists>p \<in> {''open '', ''say '', ''afplay '', ''osascript ''}. \<exists>rest. c = p @ rest) \<longrightarrow>
      handle_action E ''execute'' message data =
        (Inr [(''success'', JBool False), (''error'', JStr ''Command not allowed'')], []))
   \<and> (map_of data ''command'' = Some (JStr ''rm -rf /'') \<longrightarrow>
      handle_action E ''execute'' message data =
        (Inr [(''success'', JBool False), (''error'', JStr ''Command not allowed'')], []))"
proof (intro conjI impI)
  assume "map_of data ''command'' = None \<or> map_of data ''command'' = Some (JStr '''')"
  then show "handle_action E ''execute'' message data =
        (Inr [(''success'', JBool False), (''error'', JStr ''No command provided'')], [])"
    by (simp only: handle_action_names execute_no_command)
next
  assume a: "map_of data ''command'' = Some (JStr c) \<and> c \<noteq> '''' \<and>
       \<not> (\<exists>p \<in> {''open '', ''say '', ''afplay '', ''osascript ''}. \<exists>rest. c = p @ rest)"
  then have "\<not> (\<exists>p \<in> set allowed_prefixes. startswith c p)"
    by (simp add: allowed_prefixes_def startswith_iff)
  with a show "handle_action E ''execute'' message data =
        (Inr [(''success'', JBool False), (''error'', JStr ''Command not allowed'')], [])"
    by (simp add: handle_action_names execute_not_allowed [of data c])
next
  assume a: "map_of data ''command'' = Some (JStr ''rm -rf /'')"
  have "\<not> (\<exists>p \<in> set allowed_prefixes. startswith ''rm -rf /'' p)"
    by (simp add: allowed_prefixes_def startswith_def)
  with a show "handle_action E ''execute'' message data =
        (Inr [(''success'', JBool False), (''error'', JStr ''Command not allowed'')], [])"
    by (simp add: handle_action_names execute_not_allowed)
qed

theorem execute_rejects_witness:
  "handle_action sample_host ''execute'' (JStr ''hello'') [(''action'', JStr ''execute'')] =
     (Inr [(''success'', JBool False), (''error'', JStr ''No command provided'')], [])
   \<and> handle_action sample_host ''execute'' (JStr ''hello'') [(''command'', JStr ''rm -rf /'')] =
     (Inr [(''success'', JBool False), (''error'', JStr ''Command not allowed'')], [])
   \<and> handle_action sample_host ''execute'' (JStr ''hello'')
        [(''command'', JStr ''sudo open /tmp'')] =
     (Inr [(''success'', JBool False), (''error'', JStr ''Command not allowed'')], [])"
  using execute_rejects [of "[(''action'', JStr ''execute'')]" sample_host "JStr ''hello''" "''x''"]
        execute_rejects [of "[(''command'', JStr ''rm -rf /'')]" sample_host "JStr ''hello''"
                            "''x''"]
        execute_rejects [of "[(''command'', JStr ''sudo open /tmp'')]" sample_host
                            "JStr ''hello''" "''sudo open /tmp''"]
  by simp

text \<open>
  The fallback of the lookup: an action name outside \<open>notify\<close>, \<open>notification\<close>,
  \<open>sound\<close>, \<open>say\<close>, \<open>log\<close>, \<open>execute\<close> is handled by \<open>action_notify\<close>, with the outcome
  of the name \<open>notify\<close> for every message and data; so it is for \<open>frobnicate\<close>. Every name
  is handled by one of the five handlers.
\<close>

lemma unknown_action_handled_by_notify:
  "(a \<notin> {''notify'', ''notification'', ''sound'', ''say'', ''log'', ''execute''} \<longrightarrow>
      handle_action E a message data = action_notify E message data \<and>
      handle_action E a message data = handle_action E ''notify'' message data)
   \<and> handle_action E ''frobnicate'' message data = handle_action E ''notify'' message data
   \<and> handle_action E a \<in>
         {action_notify E, action_sound E, action_say E, action_log E, action_execute E}"
proof (intro conjI impI)
  assume a: "a \<notin> {''notify'', ''notification'', ''sound'', ''say'', ''log'', ''execute''}"
  show "handle_action E a message data = action_notify E message data"
    by (simp only: handle_action_unregistered [OF a])
  show "handle_action E a message data = handle_action E ''notify'' message data"
    by (simp only: handle_action_unregistered [OF a] handle_action_names)
next
  have "''frobnicate'' \<notin> {''notify'', ''notification'', ''sound'', ''say'', ''log'', ''execute''}"
    by simp
  then have "handle_action E ''frobnicate'' = action_notify E"
    by (rule handle_action_unregistered)
  then show "handle_action E ''frobnicate'' message data = handle_action E ''notify'' message data"
    by (simp only: handle_action_names)
next
  show "handle_action E a \<in>
         {action_notify E, action_sound E, action_say E, action_log E, action_execute E}"
    by (rule handle_action_registered)
qed

subsection \<open>The envelope\<close>

lemma strip_empty_iff: "strip s = [] \<longleftrightarrow> blank s"
proof
  assume "strip s = []"
  then have a: "\<forall>c \<in> set (dropWhile isspace s). isspace c"
    by (simp add: strip_def dropWhile_eq_Nil_conv)
  have "dropWhile isspace s = []"
  proof (rule ccontr)
    assume n: "dropWhile isspace s \<noteq> []"
    then have "\<not> isspace (hd (dropWhile isspace s))" by (rule hd_dropWhile)
    moreover from n have "hd (dropWhile isspace s) \<in> set (dropWhile isspace s)" by simp
    ultimately show False using a by simp
  qed
  then show "blank s"
    by (simp add: blank_def dropWhile_eq_Nil_conv list_all_iff)
next
  assume "blank s"
  then have "dropWhile isspace s = []"
    by (simp add: blank_def dropWhile_eq_Nil_conv list_all_iff)
  then have "strip s = rev (dropWhile isspace (rev []))" by (simp only: strip_def)
  then show "strip s = []" by simp
qed

lemma dict_get_first_present:
  "dict_get d k1 (dict_get d k2 (dict_get d k3 dflt)) = first_present [k1, k2, k3] d dflt"
  by (simp add: dict_get_def split: option.split)

lemma envelope_json_object:
  assumes "body \<noteq> []" and "json_loads E body = Inr (JDict d)"
  shows "envelope E body =
     (let raw_message = first_present [''message'', ''text'', ''raw''] d (JStr ''Webhook received'')
      in Inr (dict_get d ''action'' (JStr ''notify''),
              (case raw_message of
                 JDict r \<Rightarrow> first_present [''result'', ''text'', ''content''] r
                              (JStr (json_dumps E raw_message))
               | JStr s \<Rightarrow> if blank s then JStr ''No message content'' else raw_message
               | _ \<Rightarrow> if truthy raw_message then JStr (py_str E raw_message)
                      else JStr ''No message content''),
              d))"
  using assms
  by (cases "first_present [''message'', ''text'', ''raw''] d (JStr ''Webhook received'')")
     (simp_all add: envelope_def Let_def dict_get_first_present strip_empty_iff
        del: first_present.simps)

text \<open>
  An exception of \<open>json.loads\<close> that is not a \<open>ValueError\<close>, such as the \<open>RecursionError\<close>
  on a deeply nested body, is not caught and there is no envelope.
\<close>

lemma envelope_uncaught:
  assumes "body \<noteq> []" and "json_loads E body = Inl e" and "\<not> is_value_error e"
  shows "envelope E body = Inl e"
  using assms by (simp add: envelope_def)

text \<open>
  C5. For a body that \<open>json.loads\<close> turns into a mapping, the data of the envelope is
  that mapping. The action is the value of \<open>action\<close> when the mapping has the key,
  whatever the value (the empty text and \<open>null\<close> too), and \<open>notify\<close> when it has not. The
  raw message is first-present-wins among \<open>message\<close>, \<open>text\<close>, \<open>raw\<close> with default
  \<open>Webhook received\<close>. When the raw message is a mapping, the message is
  first-present-wins among its \<open>result\<close>, \<open>text\<close>, \<open>content\<close>, with the JSON
  serialization of the mapping as default; when it is a text, the message is that text,
  or \<open>No message content\<close> if the text is empty or blank; when it is anything else (a
  number, a truth value, \<open>null\<close>, a list), the message is \<open>str\<close> of it if it is true in
  a condition, and \<open>No message content\<close> if it is not.
\<close>

theorem json_object_envelope:
  assumes "body \<noteq> []" and "json_loads E body = Inr (JDict d)"
  shows "envelope E body =
     Inr ((case map_of d ''action'' of Some a \<Rightarrow> a | None \<Rightarrow> JStr ''notify''),
          (let raw = first_present [''message'', ''text'', ''raw''] d (JStr ''Webhook received'')
           in case raw of
                JDict r \<Rightarrow> first_present [''result'', ''text'', ''content''] r
                             (JStr (json_dumps E raw))
              | JStr s \<Rightarrow> if blank s then JStr ''No message content'' else raw
              | _ \<Rightarrow> if truthy raw then JStr (py_str E raw) else JStr ''No message content''),
          d)"
  using envelope_json_object [OF assms] by (simp only: Let_def dict_get_def)

theorem json_object_envelope_witness:
  "body_text_hi \<noteq> [] \<and> json_loads sample_host body_text_hi = Inr (JDict [(''text'', JStr ''hi'')])
   \<and> envelope sample_host body_text_hi =
       Inr (JStr ''notify'', JStr ''hi'', [(''text'', JStr ''hi'')])
   \<and> body_message_result \<noteq> []
   \<and> json_loads sample_host body_message_result =
       Inr (JDict [(''message'', JDict [(''result'', JStr ''r'')])])
   \<and> envelope sample_host body_message_result =
       Inr (JStr ''notify'', JStr ''r'', [(''message'', JDict [(''result'', JStr ''r'')])])"
proof -
  have a1: "body_text_hi \<noteq> []" by (simp add: body_text_hi_def)
  have a2: "json_loads sample_host body_text_hi = Inr (JDict [(''text'', JStr ''hi'')])"
    by (simp add: sample_host_def sample_loads_def)
  have b1: "body_message_result \<noteq> []" by (simp add: body_message_result_def)
  have b2: "json_loads sample_host body_message_result =
       Inr (JDict [(''message'', JDict [(''result'', JStr ''r'')])])"
    by (simp add: sample_host_def sample_loads_def body_message_result_def body_text_hi_def)
  have c1: "envelope sample_host body_text_hi =
       Inr (JStr ''notify'', JStr ''hi'', [(''text'', JStr ''hi'')])"
    using json_object_envelope [OF a1 a2] by (simp add: blank_def isspace_def)
  have c2: "envelope sample_host body_message_result =
       Inr (JStr ''notify'', JStr ''r'', [(''message'', JDict [(''result'', JStr ''r'')])])"
    using json_object_envelope [OF b1 b2] by simp
  from a1 a2 b1 b2 c1 c2 show ?thesis by (intro conjI)
qed

text \<open>
  For \<open>{"action":""}\<close> the action of the envelope is the empty text, not \<open>notify\<close>; for
  \<open>{"message":0}\<close> the message is \<open>No message content\<close>, not the value found under the
  key.
\<close>

theorem json_object_envelope_counterexample:
  "json_loads sample_host body_action_empty = Inr (JDict [(''action'', JStr [])])
   \<and> envelope sample_host body_action_empty =
       Inr (JStr [], JStr ''Webhook received'', [(''action'', JStr [])])
   \<and> claimed_action [(''action'', JStr [])] = JStr ''notify''
   \<and> envelope sample_host body_action_empty \<noteq>
       Inr (claimed_action [(''action'', JStr [])],
            claimed_message sample_host [(''action'', JStr [])], [(''action'', JStr [])])
   \<and> json_loads sample_host body_message_zero = Inr (JDict [(''message'', JInt 0)])
   \<and> envelope sample_host body_message_zero =
       Inr (JStr ''notify'', JStr ''No message content'', [(''message'', JInt 0)])
   \<and> claimed_message sample_host [(''message'', JInt 0)] = JInt 0
   \<and> envelope sample_host body_message_zero \<noteq>
       Inr (claimed_action [(''message'', JInt 0)],
            claimed_message sample_host [(''message'', JInt 0)], [(''message'', JInt 0)])"
  by (simp add: envelope_def Let_def dict_get_def strip_def isspace_def claimed_action_def
        claimed_message_def sample_host_def sample_loads_def body_text_hi_def
        body_message_result_def body_action_number_def body_frobnicate_number_def
        body_action_empty_def body_message_zero_def)

lemma envelope_plain_text:
  assumes "json_loads E body = Inl e" and "is_value_error e" and "\<not> blank body"
  shows "envelope E body = Inr (plain_text_envelope body)"
proof -
  from assms(3) have s: "strip body \<noteq> []" by (simp add: strip_empty_iff)
  then have "body \<noteq> []" by (auto simp: strip_def)
  with assms(1,2) s show ?thesis
    by (simp add: envelope_def plain_text_envelope_def Let_def)
qed

lemma envelope_blank:
  assumes "body = [] \<or> json_loads E body = Inl e \<and> is_value_error e" and "blank body"
  shows "envelope E body = Inr (JStr ''notify'', JStr ''Webhook received'', [])"
proof -
  from assms(2) have s: "strip body = []" by (simp add: strip_empty_iff)
  have w: "strip ''Webhook received'' \<noteq> []" by (simp add: strip_def isspace_def)
  from assms(1) s w show ?thesis
    by (auto simp: envelope_def Let_def dict_get_def)
qed

text \<open>
  C4. A body on which \<open>json.loads\<close> raises \<open>JSONDecodeError\<close> (or another \<open>ValueError\<close>)
  and that is not blank gets the plain-text interpretation: action \<open>notify\<close>, the stripped
  body as message, and the data made of the title \<open>Email AI Analysis\<close> and that message.
  The empty body, and a body of white space only on which \<open>json.loads\<close> raises that
  error, do not: the guard \<open>body.strip()\<close> sends them through the JSON branch with an
  empty mapping, which gives action \<open>notify\<close>, message \<open>Webhook received\<close> and empty data.
\<close>

theorem plain_text_envelope_unless_blank:
  "(json_loads E body = Inl e \<and> is_value_error e \<and> \<not> blank body \<longrightarrow>
      envelope E body = Inr (plain_text_envelope body))
   \<and> ((body = [] \<or> json_loads E body = Inl e \<and> is_value_error e) \<and> blank body \<longrightarrow>
      envelope E body = Inr (JStr ''notify'', JStr ''Webhook received'', []))"
  using envelope_plain_text [of E body e] envelope_blank [of body E e]
  by (intro conjI impI) simp_all

theorem plain_text_envelope_unless_blank_witness:
  "json_loads sample_host ''  hello world '' = Inl JSONDecodeError
   \<and> is_value_error JSONDecodeError \<and> \<not> blank ''  hello world ''
   \<and> envelope sample_host ''  hello world '' =
       Inr (JStr ''notify'', JStr ''hello world'',
            [(''title'', JStr ''Email AI Analysis''), (''message'', JStr ''hello world'')])
   \<and> json_loads sample_host '' '' = Inl JSONDecodeError \<and> blank '' ''
   \<and> envelope sample_host '' '' = Inr (JStr ''notify'', JStr ''Webhook received'', [])"
proof -
  have a1: "json_loads sample_host ''  hello world '' = Inl JSONDecodeError"
    by (simp add: sample_host_def sample_loads_def body_text_hi_def body_message_result_def
          body_action_number_def body_frobnicate_number_def body_action_empty_def
          body_message_zero_def)
  have v: "is_value_error JSONDecodeError" by simp
  have a2: "\<not> blank ''  hello world ''" by (simp add: blank_def isspace_def)
  have b1: "json_loads sample_host '' '' = Inl JSONDecodeError"
    by (simp add: sample_host_def sample_loads_def body_text_hi_def body_message_result_def
          body_action_number_def body_frobnicate_number_def body_action_empty_def
          body_message_zero_def)
  have b2: "blank '' ''" by (simp add: blank_def isspace_def)
  have p: "plain_text_envelope ''  hello world '' =
       (JStr ''notify'', JStr ''hello world'',
            [(''title'', JStr ''Email AI Analysis''), (''message'', JStr ''hello world'')])"
    by (simp add: plain_text_envelope_def strip_def isspace_def)
  have c1: "envelope sample_host ''  hello world '' = Inr (plain_text_envelope ''  hello world '')"
    using conjunct1 [OF plain_text_envelope_unless_blank
            [where E = sample_host and body = "''  hello world ''" and e = JSONDecodeError]]
          a1 v a2
    by simp
  have c2: "envelope sample_host '' '' = Inr (JStr ''notify'', JStr ''Webhook received'', [])"
    using conjunct2 [OF plain_text_envelope_unless_blank
            [where E = sample_host and body = "'' ''" and e = JSONDecodeError]] b1 v b2
    by simp
  from a1 v a2 b1 b2 c1 [unfolded p] c2 show ?thesis by (intro conjI)
qed

text \<open>
  For the empty body and for a body of one space the envelope is not the plain-text
  interpretation, although the first is not parsed and the second is rejected by the
  parser.
\<close>

theorem plain_text_envelope_counterexample:
  "envelope sample_host '''' = Inr (JStr ''notify'', JStr ''Webhook received'', [])
   \<and> envelope sample_host '''' \<noteq> Inr (plain_text_envelope '''')
   \<and> json_loads sample_host '' '' = Inl JSONDecodeError
   \<and> envelope sample_host '' '' \<noteq> Inr (plain_text_envelope '' '')"
  by (simp add: envelope_def Let_def dict_get_def strip_def isspace_def plain_text_envelope_def
        sample_host_def sample_loads_def body_text_hi_def body_message_result_def
        body_action_number_def body_frobnicate_number_def body_action_empty_def
        body_message_zero_def)

subsection \<open>Exceptions that leave the handlers\<close>

text \<open>
  C2. The POST handler does not complete on every body: on \<open>{"action": 5}\<close> the envelope
  has the number 5 as action, the request line of the log calls \<open>action.upper()\<close> on it,
  and \<open>do_POST\<close> raises \<open>AttributeError\<close> after the debug line, before any dispatch and
  without a response.
\<close>

theorem do_POST_action_number_raises:
  "do_POST sample_host body_action_number =
     (Inl AttributeError, [DebugLine 13 body_action_number])"
  by (simp add: do_POST_def envelope_def Let_def dict_get_def strip_def isspace_def
        sample_host_def sample_loads_def body_text_hi_def body_message_result_def
        body_action_number_def)

text \<open>
  C3. Not every POST request reaches an action handler: on
  \<open>{"action":"frobnicate","message":{"result":5}}\<close> the envelope has the unknown action
  \<open>frobnicate\<close> and the number 5 as message, the request line of the log takes
  \<open>message[:100]\<close> of it, and \<open>do_POST\<close> raises \<open>TypeError\<close> after the debug line: the
  lookup with its fallback to \<open>action_notify\<close> is never made and the caller gets no
  response.
\<close>

theorem do_POST_unknown_action_unreached:
  "do_POST sample_host body_frobnicate_number =
     (Inl TypeError, [DebugLine 46 body_frobnicate_number])"
  by (simp add: do_POST_def envelope_def Let_def dict_get_def strip_def isspace_def
        sample_host_def sample_loads_def body_text_hi_def body_message_result_def
        body_action_number_def body_frobnicate_number_def)

subsection \<open>Running commands\<close>

lemma subprocess_run_nul:
  assumes "list_ex (\<lambda>arg. CHR 0x00 \<in> set arg) (cmd_args c)"
  shows "subprocess_run E c check timeout = (Inl (ValueError ''embedded null byte''), [Run c])"
  using assms by (simp add: subprocess_run_def)

lemma subprocess_run_fails:
  assumes "\<not> list_ex (\<lambda>arg. CHR 0x00 \<in> set arg) (cmd_args c)" and "os_outcome E c = Fails msg"
  shows "subprocess_run E c check timeout = (Inl (OSError msg), [Run c])"
  using assms by (simp add: subprocess_run_def)

lemma subprocess_run_timeout:
  assumes "\<not> list_ex (\<lambda>arg. CHR 0x00 \<in> set arg) (cmd_args c)"
    and "os_outcome E c = Exited t rc out err" and "limit < t"
  shows "subprocess_run E c check (Some limit) = (Inl (TimeoutExpired c limit), [Run c, Kill c])"
  using assms by (simp add: subprocess_run_def)

lemma subprocess_run_unchecked:
  assumes "\<not> list_ex (\<lambda>arg. CHR 0x00 \<in> set arg) (cmd_args c)"
    and "os_outcome E c = Exited t rc out err"
    and "case timeout of Some limit \<Rightarrow> t \<le> limit | None \<Rightarrow> True"
  shows "subprocess_run E c False timeout =
           (Inr \<lparr>returncode = rc, stdout = out, stderr = err\<rparr>, [Run c])"
  using assms by (simp add: subprocess_run_def split: option.splits)

lemma subprocess_run_checked:
  assumes "\<not> list_ex (\<lambda>arg. CHR 0x00 \<in> set arg) (cmd_args c)"
    and "os_outcome E c = Exited t rc out err"
  shows "subprocess_run E c True None =
           (if rc = 0 then (Inr \<lparr>returncode = rc, stdout = out, stderr = err\<rparr>, [Run c])
            else (Inl (CalledProcessError c rc), [Run c]))"
  using assms by (simp add: subprocess_run_def)

lemma shell_nul: "list_ex (\<lambda>arg. CHR 0x00 \<in> set arg) (cmd_args (Shell c)) \<longleftrightarrow> CHR 0x00 \<in> set c"
  by simp

lemma execute_allowed:
  assumes "map_of data ''command'' = Some (JStr c)"
    and "\<exists>p \<in> {''open '', ''say '', ''afplay '', ''osascript ''}. \<exists>rest. c = p @ rest"
  shows "action_execute E message data =
     (case subprocess_run E (Shell c) False (Some 30) of
        (Inr result, evs) \<Rightarrow>
          (Inr [(''success'', JBool (returncode result = 0)), (''action'', JStr ''execute''),
                (''stdout'', JStr (stdout result)), (''stderr'', JStr (stderr result))], evs)
      | (Inl (TimeoutExpired c' limit), evs) \<Rightarrow>
          (Inr [(''success'', JBool False), (''error'', JStr ''Command timed out'')], evs)
      | (Inl e, evs) \<Rightarrow>
          (Inr [(''success'', JBool False), (''error'', JStr (str_of_exn E e))], evs))"
proof -
  from assms(2) have ne: "c \<noteq> []" by auto
  from assms(2) have "list_ex (startswith c) allowed_prefixes"
    by (simp add: allowed_prefixes_def startswith_iff)
  with assms(1) ne show ?thesis
    by (simp add: action_execute_def dict_get_def)
qed

lemma allowed_by_startswith:
  assumes "list_ex (startswith c) allowed_prefixes"
  shows "\<exists>p \<in> {''open '', ''say '', ''afplay '', ''osascript ''}. \<exists>rest. c = p @ rest"
  using assms by (simp add: allowed_prefixes_def startswith_iff)

text \<open>
  C6. For an \<open>execute\<close> invocation whose command is a text that starts with one of the
  four prefixes, the handler calls \<open>subprocess.run\<close> once, with the shell and a timeout of
  30 seconds, and there are three outcomes, not two. If the command cannot be started
  (it holds a NUL character, or the host refuses it) the result is \<open>success: false\<close> with
  the text of the exception as \<open>error\<close>. If the child runs for more than 30 seconds the
  result is \<open>success: false\<close> with \<open>Command timed out\<close>, and the child is killed. Otherwise
  the result has \<open>success\<close> true exactly when the return code is 0, the action
  \<open>execute\<close>, and the captured \<open>stdout\<close> and \<open>stderr\<close>.
\<close>

theorem execute_outcomes:
  assumes "map_of data ''command'' = Some (JStr c)"
    and "\<exists>p \<in> {''open '', ''say '', ''afplay '', ''osascript ''}. \<exists>rest. c = p @ rest"
  shows "(CHR 0x00 \<in> set c \<longrightarrow>
            action_execute E message data =
              (Inr [(''success'', JBool False), (''error'', JStr ''embedded null byte'')],
               [Run (Shell c)]))
       \<and> (CHR 0x00 \<notin> set c \<and> os_outcome E (Shell c) = Fails msg \<longrightarrow>
            action_execute E message data =
              (Inr [(''success'', JBool False), (''error'', JStr msg)], [Run (Shell c)]))
       \<and> (CHR 0x00 \<notin> set c \<and> os_outcome E (Shell c) = Exited t rc out err \<and> 30 < t \<longrightarrow>
            action_execute E message data =
              (Inr [(''success'', JBool False), (''error'', JStr ''Command timed out'')],
               [Run (Shell c), Kill (Shell c)]))
       \<and> (CHR 0x00 \<notin> set c \<and> os_outcome E (Shell c) = Exited t rc out err \<and> t \<le> 30 \<longrightarrow>
            action_execute E message data =
              (Inr [(''success'', JBool (rc = 0)), (''action'', JStr ''execute''),
                    (''stdout'', JStr out), (''stderr'', JStr err)],
               [Run (Shell c)]))"
proof (intro conjI impI)
  assume "CHR 0x00 \<in> set c"
  then show "action_execute E message data =
              (Inr [(''success'', JBool False), (''error'', JStr ''embedded null byte'')],
               [Run (Shell c)])"
    by (simp add: execute_allowed [OF assms] subprocess_run_nul str_of_exn_def)
next
  assume "CHR 0x00 \<notin> set c \<and> os_outcome E (Shell c) = Fails msg"
  then show "action_execute E message data =
              (Inr [(''success'', JBool False), (''error'', JStr msg)], [Run (Shell c)])"
    by (simp add: execute_allowed [OF assms] subprocess_run_fails str_of_exn_def)
next
  assume "CHR 0x00 \<notin> set c \<and> os_outcome E (Shell c) = Exited t rc out err \<and> 30 < t"
  then show "action_execute E message data =
              (Inr [(''success'', JBool False), (''error'', JStr ''Command timed out'')],
               [Run (Shell c), Kill (Shell c)])"
    by (simp add: execute_allowed [OF assms] subprocess_run_timeout [of _ _ t rc out err])
next
  assume "CHR 0x00 \<notin> set c \<and> os_outcome E (Shell c) = Exited t rc out err \<and> t \<le> 30"
  then show "action_execute E message data =
              (Inr [(''success'', JBool (rc = 0)), (''action'', JStr ''execute''),
                    (''stdout'', JStr out), (''stderr'', JStr err)],
               [Run (Shell c)])"
    by (simp add: execute_allowed [OF assms] subprocess_run_unchecked [of _ _ t rc out err])
qed


theorem execute_outcomes_witness:
  "action_execute sample_host (JStr ''hi'') [(''command'', JStr (''open '' @ [CHR 0x00]))] =
     (Inr [(''success'', JBool False), (''error'', JStr ''embedded null byte'')],
      [Run (Shell (''open '' @ [CHR 0x00]))])
   \<and> action_execute sample_host (JStr ''hi'') [(''command'', JStr ''say no more processes'')] =
     (Inr [(''success'', JBool False),
           (''error'', JStr ''[Errno 35] Resource temporarily unavailable'')],
      [Run (Shell ''say no more processes'')])
   \<and> action_execute sample_host (JStr ''hi'') [(''command'', JStr ''osascript slow.scpt'')] =
     (Inr [(''success'', JBool False), (''error'', JStr ''Command timed out'')],
      [Run (Shell ''osascript slow.scpt''), Kill (Shell ''osascript slow.scpt'')])
   \<and> action_execute sample_host (JStr ''hi'') [(''command'', JStr ''open /nowhere'')] =
     (Inr [(''success'', JBool False), (''action'', JStr ''execute''), (''stdout'', JStr []),
           (''stderr'', JStr ''The file /nowhere does not exist.'')],
      [Run (Shell ''open /nowhere'')])
   \<and> action_execute sample_host (JStr ''hi'') [(''command'', JStr ''open /tmp'')] =
     (Inr [(''success'', JBool True), (''action'', JStr ''execute''), (''stdout'', JStr []),
           (''stderr'', JStr [])],
      [Run (Shell ''open /tmp'')])"
proof -
  have p1: "\<exists>p \<in> {''open '', ''say '', ''afplay '', ''osascript ''}. \<exists>rest.
              ''open '' @ [CHR 0x00] = p @ rest"
    by (rule allowed_by_startswith) (simp add: allowed_prefixes_def startswith_def)
  have p2: "\<exists>p \<in> {''open '', ''say '', ''afplay '', ''osascript ''}. \<exists>rest.
              ''say no more processes'' = p @ rest"
    by (rule allowed_by_startswith) (simp add: allowed_prefixes_def startswith_def)
  have p3: "\<exists>p \<in> {''open '', ''say '', ''afplay '', ''osascript ''}. \<exists>rest.
              ''osascript slow.scpt'' = p @ rest"
    by (rule allowed_by_startswith) (simp add: allowed_prefixes_def startswith_def)
  have p4: "\<exists>p \<in> {''open '', ''say '', ''afplay '', ''osascript ''}. \<exists>rest.
              ''open /nowhere'' = p @ rest"
    by (rule allowed_by_startswith) (simp add: allowed_prefixes_def startswith_def)
  have p5: "\<exists>p \<in> {''open '', ''say '', ''afplay '', ''osascript ''}. \<exists>rest.
              ''open /tmp'' = p @ rest"
    by (rule allowed_by_startswith) (simp add: allowed_prefixes_def startswith_def)
  have o2: "os_outcome sample_host (Shell ''say no more processes'') =
              Fails ''[Errno 35] Resource temporarily unavailable''"
    by (simp add: sample_host_def sample_outcome_def)
  have o3: "os_outcome sample_host (Shell ''osascript slow.scpt'') = Exited 35 0 [] []"
    by (simp add: sample_host_def sample_outcome_def)
  have o4: "os_outcome sample_host (Shell ''open /nowhere'') =
              Exited 1 1 [] ''The file /nowhere does not exist.''"
    by (simp add: sample_host_def sample_outcome_def)
  have o5: "os_outcome sample_host (Shell ''open /tmp'') = Exited 1 0 [] []"
    by (simp add: sample_host_def sample_outcome_def)
  have r1: "action_execute sample_host (JStr ''hi'')
              [(''command'', JStr (''open '' @ [CHR 0x00]))] =
     (Inr [(''success'', JBool False), (''error'', JStr ''embedded null byte'')],
      [Run (Shell (''open '' @ [CHR 0x00]))])"
    using execute_outcomes [OF _ p1, where data = "[(''command'', JStr (''open '' @ [CHR 0x00]))]"
            and E = sample_host and message = "JStr ''hi''"]
    by simp
  have r2: "action_execute sample_host (JStr ''hi'')
              [(''command'', JStr ''say no more processes'')] =
     (Inr [(''success'', JBool False),
           (''error'', JStr ''[Errno 35] Resource temporarily unavailable'')],
      [Run (Shell ''say no more processes'')])"
    using execute_outcomes [OF _ p2, where data = "[(''command'', JStr ''say no more processes'')]"
            and E = sample_host and message = "JStr ''hi''"
            and msg = "''[Errno 35] Resource temporarily unavailable''"] o2
    by simp
  have r3: "action_execute sample_host (JStr ''hi'') [(''command'', JStr ''osascript slow.scpt'')] =
     (Inr [(''success'', JBool False), (''error'', JStr ''Command timed out'')],
      [Run (Shell ''osascript slow.scpt''), Kill (Shell ''osascript slow.scpt'')])"
    using execute_outcomes [OF _ p3, where data = "[(''command'', JStr ''osascript slow.scpt'')]"
            and E = sample_host and message = "JStr ''hi''" and t = 35 and rc = 0
            and out = "[]" and err = "[]"] o3
    by simp
  have r4: "action_execute sample_host (JStr ''hi'') [(''command'', JStr ''open /nowhere'')] =
     (Inr [(''success'', JBool False), (''action'', JStr ''execute''), (''stdout'', JStr []),
           (''stderr'', JStr ''The file /nowhere does not exist.'')],
      [Run (Shell ''open /nowhere'')])"
    using execute_outcomes [OF _ p4, where data = "[(''command'', JStr ''open /nowhere'')]"
            and E = sample_host and message = "JStr ''hi''" and t = 1 and rc = 1
            and out = "[]" and err = "''The file /nowhere does not exist.''"] o4
    by simp
  have r5: "action_execute sample_host (JStr ''hi'') [(''command'', JStr ''open /tmp'')] =
     (Inr [(''success'', JBool True), (''action'', JStr ''execute''), (''stdout'', JStr []),
           (''stderr'', JStr [])],
      [Run (Shell ''open /tmp'')])"
    using execute_outcomes [OF _ p5, where data = "[(''command'', JStr ''open /tmp'')]"
            and E = sample_host and message = "JStr ''hi''" and t = 1 and rc = 0
            and out = "[]" and err = "[]"] o5
    by simp
  from r1 r2 r3 r4 r5 show ?thesis by (intro conjI)
qed

text \<open>
  The command \<open>open\<close> followed by a space and a NUL character passes the allow-list; the
  result is neither the timeout error nor a result with action and output.
\<close>

theorem execute_outcomes_counterexample:
  "list_ex (startswith (''open '' @ [CHR 0x00])) allowed_prefixes
   \<and> action_execute sample_host (JStr ''hi'') [(''command'', JStr (''open '' @ [CHR 0x00]))] =
       (Inr [(''success'', JBool False), (''error'', JStr ''embedded null byte'')],
        [Run (Shell (''open '' @ [CHR 0x00]))])
   \<and> action_execute sample_host (JStr ''hi'') [(''command'', JStr (''open '' @ [CHR 0x00]))] \<noteq>
       (Inr [(''success'', JBool False), (''error'', JStr ''Command timed out'')],
        [Run (Shell (''open '' @ [CHR 0x00])), Kill (Shell (''open '' @ [CHR 0x00]))])
   \<and> (case fst (action_execute sample_host (JStr ''hi'')
                   [(''command'', JStr (''open '' @ [CHR 0x00]))]) of
         Inr r \<Rightarrow> map_of r ''action'' = None \<and> map_of r ''stdout'' = None
       | Inl e \<Rightarrow> False)"
  by (simp add: action_execute_def dict_get_def allowed_prefixes_def startswith_def
        subprocess_run_def str_of_exn_def)

subsection \<open>The message in the result and in the command\<close>

lemma replace_removes: "old \<notin> set new \<Longrightarrow> old \<notin> set (replace s old new)"
  by (induction s) (auto simp: replace_def)

lemma replace_keeps_absent:
  "c \<notin> set s \<Longrightarrow> c \<notin> set new \<Longrightarrow> c \<notin> set (replace s old new)"
  by (induction s) (auto simp: replace_def)

lemma notify_clean_msg:
  fixes m :: string
  defines "clean \<equiv> replace (replace (replace m (CHR 0x22) squote) (CHR 0x5C) []) (CHR 0x0A) '' ''"
  shows "CHR 0x22 \<notin> set clean" and "CHR 0x5C \<notin> set clean" and "CHR 0x0A \<notin> set clean"
proof -
  have 1: "CHR 0x22 \<notin> set (replace m (CHR 0x22) squote)"
    by (rule replace_removes) simp
  have 2: "CHR 0x22 \<notin> set (replace (replace m (CHR 0x22) squote) (CHR 0x5C) [])"
    by (rule replace_keeps_absent [OF 1]) simp
  show "CHR 0x22 \<notin> set clean"
    unfolding clean_def by (rule replace_keeps_absent [OF 2]) simp
  have 3: "CHR 0x5C \<notin> set (replace (replace m (CHR 0x22) squote) (CHR 0x5C) [])"
    by (rule replace_removes) simp
  show "CHR 0x5C \<notin> set clean"
    unfolding clean_def by (rule replace_keeps_absent [OF 3]) simp
  show "CHR 0x0A \<notin> set clean"
    unfolding clean_def by (rule replace_removes) simp
qed

lemma subprocess_run_events:
  "snd (subprocess_run E c check None) = [Run c]"
  by (simp add: subprocess_run_def Let_def split: proc_outcome.splits)

lemma action_notify_success:
  assumes "action_notify E message data = (Inr r, evs)"
    and "map_of r ''success'' = Some (JBool True)"
  shows "\<exists>m t. message = JStr m \<and> dict_get data ''title'' (JStr ''ActivePieces'') = JStr t
     \<and> r = [(''success'', JBool True), (''action'', JStr ''notify''), (''message'', message)]
     \<and> evs = [Run (Argv [''osascript'', ''-e'',
          ''display notification '' @ dquote
          @ replace (replace (replace m (CHR 0x22) squote) (CHR 0x5C) []) (CHR 0x0A) '' ''
          @ dquote @ '' with title '' @ dquote @ replace t (CHR 0x22) squote @ dquote
          @ '' sound name '' @ dquote
          @ format_value E (dict_get data ''sound'' (JStr ''Glass'')) @ dquote])]"
proof (cases message)
  case (JStr m)
  show ?thesis
  proof (cases "dict_get data ''title'' (JStr ''ActivePieces'')")
    case t: (JStr t)
    let ?c = "Argv [''osascript'', ''-e'',
          ''display notification '' @ dquote
          @ replace (replace (replace m (CHR 0x22) squote) (CHR 0x5C) []) (CHR 0x0A) '' ''
          @ dquote @ '' with title '' @ dquote @ replace t (CHR 0x22) squote @ dquote
          @ '' sound name '' @ dquote
          @ format_value E (dict_get data ''sound'' (JStr ''Glass'')) @ dquote]"
    obtain x es where run: "subprocess_run E ?c True None = (x, es)" by (cases "subprocess_run E ?c True None")
    with subprocess_run_events [of E ?c True] have es: "es = [Run ?c]" by simp
    from assms JStr t run have "r = [(''success'', JBool True), (''action'', JStr ''notify''), (''message'', message)] \<and> evs = es"
      by (auto simp: action_notify_def Let_def split: sum.splits exn.splits)
    with JStr t es show ?thesis by simp
  qed (use assms JStr in \<open>simp_all add: action_notify_def Let_def\<close>)
qed (use assms in \<open>simp_all add: action_notify_def Let_def\<close>)

lemma action_say_success:
  assumes "action_say E message data = (Inr r, evs)"
    and "map_of r ''success'' = Some (JBool True)"
  shows "\<exists>m v. message = JStr m \<and> dict_get data ''voice'' (JStr ''Samantha'') = JStr v
     \<and> r = [(''success'', JBool True), (''action'', JStr ''say''), (''message'', message)]
     \<and> evs = [Run (Argv [''say'', ''-v'', v, replace m (CHR 0x22) squote])]"
proof (cases message)
  case (JStr m)
  show ?thesis
  proof (cases "dict_get data ''voice'' (JStr ''Samantha'')")
    case v: (JStr v)
    let ?c = "Argv [''say'', ''-v'', v, replace m (CHR 0x22) squote]"
    obtain x es where run: "subprocess_run E ?c True None = (x, es)" by (cases "subprocess_run E ?c True None")
    with subprocess_run_events [of E ?c True] have es: "es = [Run ?c]" by simp
    from assms JStr v run have "r = [(''success'', JBool True), (''action'', JStr ''say''), (''message'', message)] \<and> evs = es"
      by (auto simp: action_say_def Let_def split: sum.splits exn.splits)
    with JStr v es show ?thesis by simp
  qed (use assms JStr in \<open>simp_all add: action_say_def Let_def\<close>)
qed (use assms in \<open>simp_all add: action_say_def Let_def\<close>)


text \<open>
  C9. When \<open>action_notify\<close> or \<open>action_say\<close> returns a result with \<open>success\<close> true, the
  \<open>message\<close> field of the result is the message the handler was given, unchanged. The
  replacements are made on the copy that goes into the command: the notification script
  holds the message without double quotes, backslashes and newlines, the arguments of
  \<open>say\<close> hold it without double quotes.
\<close>

theorem success_keeps_message_verbatim:
  "(action_notify E message data = (Inr r, evs) \<and> map_of r ''success'' = Some (JBool True) \<longrightarrow>
      map_of r ''message'' = Some message
      \<and> (\<exists>m rest. message = JStr m
            \<and> evs = [Run (Argv [''osascript'', ''-e'',
                 ''display notification '' @ dquote
                 @ replace (replace (replace m (CHR 0x22) squote) (CHR 0x5C) []) (CHR 0x0A) '' ''
                 @ dquote @ rest])]
            \<and> CHR 0x22 \<notin> set (replace (replace (replace m (CHR 0x22) squote) (CHR 0x5C) [])
                                  (CHR 0x0A) '' '')
            \<and> CHR 0x5C \<notin> set (replace (replace (replace m (CHR 0x22) squote) (CHR 0x5C) [])
                                  (CHR 0x0A) '' '')
            \<and> CHR 0x0A \<notin> set (replace (replace (replace m (CHR 0x22) squote) (CHR 0x5C) [])
                                  (CHR 0x0A) '' '')))
   \<and> (action_say E message data = (Inr r, evs) \<and> map_of r ''success'' = Some (JBool True) \<longrightarrow>
      map_of r ''message'' = Some message
      \<and> (\<exists>m v. message = JStr m
            \<and> evs = [Run (Argv [''say'', ''-v'', v, replace m (CHR 0x22) squote])]
            \<and> CHR 0x22 \<notin> set (replace m (CHR 0x22) squote)))"
proof (intro conjI impI)
  assume a: "action_notify E message data = (Inr r, evs) \<and> map_of r ''success'' = Some (JBool True)"
  from action_notify_success [OF conjunct1 [OF a] conjunct2 [OF a]]
  obtain m t where m: "message = JStr m"
    and r: "r = [(''success'', JBool True), (''action'', JStr ''notify''), (''message'', message)]"
    and evs: "evs = [Run (Argv [''osascript'', ''-e'',
          ''display notification '' @ dquote
          @ replace (replace (replace m (CHR 0x22) squote) (CHR 0x5C) []) (CHR 0x0A) '' ''
          @ dquote @ ('' with title '' @ dquote @ replace t (CHR 0x22) squote @ dquote
          @ '' sound name '' @ dquote
          @ format_value E (dict_get data ''sound'' (JStr ''Glass'')) @ dquote)])]"
    by auto
  from r show "map_of r ''message'' = Some message" by simp
  from m evs notify_clean_msg [of m]
  show "\<exists>m rest. message = JStr m
            \<and> evs = [Run (Argv [''osascript'', ''-e'',
                 ''display notification '' @ dquote
                 @ replace (replace (replace m (CHR 0x22) squote) (CHR 0x5C) []) (CHR 0x0A) '' ''
                 @ dquote @ rest])]
            \<and> CHR 0x22 \<notin> set (replace (replace (replace m (CHR 0x22) squote) (CHR 0x5C) [])
                                  (CHR 0x0A) '' '')
            \<and> CHR 0x5C \<notin> set (replace (replace (replace m (CHR 0x22) squote) (CHR 0x5C) [])
                                  (CHR 0x0A) '' '')
            \<and> CHR 0x0A \<notin> set (replace (replace (replace m (CHR 0x22) squote) (CHR 0x5C) [])
                                  (CHR 0x0A) '' '')"
    by (intro exI [of _ m]
          exI [of _ "'' with title '' @ dquote @ replace t (CHR 0x22) squote @ dquote
          @ '' sound name '' @ dquote
          @ format_value E (dict_get data ''sound'' (JStr ''Glass'')) @ dquote"] conjI)
next
  assume a: "action_say E message data = (Inr r, evs) \<and> map_of r ''success'' = Some (JBool True)"
  from action_say_success [OF conjunct1 [OF a] conjunct2 [OF a]]
  obtain m v where m: "message = JStr m"
    and r: "r = [(''success'', JBool True), (''action'', JStr ''say''), (''message'', message)]"
    and evs: "evs = [Run (Argv [''say'', ''-v'', v, replace m (CHR 0x22) squote])]"
    by auto
  from r show "map_of r ''message'' = Some message" by simp
  have "CHR 0x22 \<notin> set (replace m (CHR 0x22) squote)"
    by (rule replace_removes) simp
  with m evs show "\<exists>m v. message = JStr m
            \<and> evs = [Run (Argv [''say'', ''-v'', v, replace m (CHR 0x22) squote])]
            \<and> CHR 0x22 \<notin> set (replace m (CHR 0x22) squote)"
    by (intro exI [of _ m] exI [of _ v] conjI)
qed

theorem success_keeps_message_verbatim_witness:
  "action_notify sample_host (JStr quoted_message) [] =
     (Inr [(''success'', JBool True), (''action'', JStr ''notify''),
           (''message'', JStr quoted_message)],
      [Run (Argv [''osascript'', ''-e'',
         ''display notification '' @ dquote @ ''say '' @ squote @ ''hi'' @ squote @ dquote
         @ '' with title '' @ dquote @ ''ActivePieces'' @ dquote
         @ '' sound name '' @ dquote @ ''Glass'' @ dquote])])
   \<and> action_say sample_host (JStr quoted_message) [] =
     (Inr [(''success'', JBool True), (''action'', JStr ''say''),
           (''message'', JStr quoted_message)],
      [Run (Argv [''say'', ''-v'', ''Samantha'', ''say '' @ squote @ ''hi'' @ squote])])
   \<and> map_of [(''success'', JBool True), (''action'', JStr ''notify''),
              (''message'', JStr quoted_message)] ''success'' = Some (JBool True)
   \<and> map_of [(''success'', JBool True), (''action'', JStr ''notify''),
              (''message'', JStr quoted_message)] ''message'' = Some (JStr quoted_message)
   \<and> map_of [(''success'', JBool True), (''action'', JStr ''say''),
              (''message'', JStr quoted_message)] ''success'' = Some (JBool True)
   \<and> map_of [(''success'', JBool True), (''action'', JStr ''say''),
              (''message'', JStr quoted_message)] ''message'' = Some (JStr quoted_message)"
proof -
  let ?rn = "[(''success'', JBool True), (''action'', JStr ''notify''),
              (''message'', JStr quoted_message)]"
  let ?rs = "[(''success'', JBool True), (''action'', JStr ''say''),
              (''message'', JStr quoted_message)]"
  let ?en = "[Run (Argv [''osascript'', ''-e'',
         ''display notification '' @ dquote @ ''say '' @ squote @ ''hi'' @ squote @ dquote
         @ '' with title '' @ dquote @ ''ActivePieces'' @ dquote
         @ '' sound name '' @ dquote @ ''Glass'' @ dquote])]"
  let ?es = "[Run (Argv [''say'', ''-v'', ''Samantha'', ''say '' @ squote @ ''hi'' @ squote])]"
  have n: "action_notify sample_host (JStr quoted_message) [] = (Inr ?rn, ?en)"
    by (simp add: action_notify_def dict_get_def Let_def replace_def quoted_message_def
          format_value_def subprocess_run_def sample_host_def sample_outcome_def)
  have s: "action_say sample_host (JStr quoted_message) [] = (Inr ?rs, ?es)"
    by (simp add: action_say_def dict_get_def Let_def replace_def quoted_message_def
          subprocess_run_def sample_host_def sample_outcome_def)
  have sn: "map_of ?rn ''success'' = Some (JBool True)" by simp
  have ss: "map_of ?rs ''success'' = Some (JBool True)" by simp
  have mn: "map_of ?rn ''message'' = Some (JStr quoted_message)"
    using conjunct1 [OF success_keeps_message_verbatim
            [where E = sample_host and message = "JStr quoted_message" and data = "[]"
               and r = ?rn and evs = ?en]] n sn
    by (elim impE conjE) (rule conjI, assumption+)
  have ms: "map_of ?rs ''message'' = Some (JStr quoted_message)"
    using conjunct2 [OF success_keeps_message_verbatim
            [where E = sample_host and message = "JStr quoted_message" and data = "[]"
               and r = ?rs and evs = ?es]] s ss
    by (elim impE conjE) (rule conjI, assumption+)
  from n s sn mn ss ms show ?thesis by (intro conjI)
qed

subsection \<open>The shape of the results\<close>











subsection \<open>The sound handler\<close>

text \<open>
  When both playback commands can be started, the result of \<open>action_sound\<close> does not
  depend on their return codes, and the second command runs exactly when the first one
  returns a code other than 0.
\<close>

lemma sound_ignores_exit_status:
  assumes "CHR 0x00 \<notin> set (format_value E (dict_get data ''sound'' (JStr ''Glass'')))"
    and "os_outcome E (Argv [''osascript'', ''-e'',
           ''do shell script '' @ dquote @ ''afplay /System/Library/Sounds/''
           @ format_value E (dict_get data ''sound'' (JStr ''Glass'')) @ ''.aiff'' @ dquote]) =
         Exited t rc out err"
    and "os_outcome E (Argv [''afplay'', ''/System/Library/Sounds/''
           @ format_value E (dict_get data ''sound'' (JStr ''Glass'')) @ ''.aiff'']) =
         Exited t' rc' out' err'"
  shows "action_sound E message data =
     (Inr [(''success'', JBool True), (''action'', JStr ''sound''),
           (''sound'', dict_get data ''sound'' (JStr ''Glass''))],
      if rc = 0
      then [Run (Argv [''osascript'', ''-e'',
              ''do shell script '' @ dquote @ ''afplay /System/Library/Sounds/''
              @ format_value E (dict_get data ''sound'' (JStr ''Glass'')) @ ''.aiff'' @ dquote])]
      else [Run (Argv [''osascript'', ''-e'',
              ''do shell script '' @ dquote @ ''afplay /System/Library/Sounds/''
              @ format_value E (dict_get data ''sound'' (JStr ''Glass'')) @ ''.aiff'' @ dquote]),
            Run (Argv [''afplay'', ''/System/Library/Sounds/''
              @ format_value E (dict_get data ''sound'' (JStr ''Glass'')) @ ''.aiff''])])"
  using assms
  by (simp add: action_sound_def Let_def subprocess_run_def)

text \<open>
  C7. \<open>action_sound\<close> does not return a result on every invocation: for a sound name that
  holds a NUL character, \<open>subprocess.run\<close> raises \<open>ValueError\<close> on the first command, the
  handler catches \<open>CalledProcessError\<close> only, and the exception leaves the handler, on
  every host and for every message.
\<close>

theorem sound_null_name_raises:
  "action_sound E message [(''sound'', JStr [CHR 0x00])] =
     (Inl (ValueError ''embedded null byte''),
      [Run (Argv [''osascript'', ''-e'',
         ''do shell script '' @ dquote @ ''afplay /System/Library/Sounds/'' @ [CHR 0x00]
         @ ''.aiff'' @ dquote])])"
  by (simp add: action_sound_def Let_def dict_get_def format_value_def subprocess_run_def)

subsection \<open>The handlers are different functions\<close>

lemma notify_text_events:
  "\<exists>script. snd (action_notify E (JStr m) []) = [Run (Argv [''osascript'', ''-e'', script])]"
proof -
  let ?c = "Argv [''osascript'', ''-e'',
          ''display notification '' @ dquote
          @ replace (replace (replace m (CHR 0x22) squote) (CHR 0x5C) []) (CHR 0x0A) '' ''
          @ dquote @ '' with title '' @ dquote @ replace ''ActivePieces'' (CHR 0x22) squote @ dquote
          @ '' sound name '' @ dquote @ format_value E (JStr ''Glass'') @ dquote]"
  obtain x es where run: "subprocess_run E ?c True None = (x, es)"
    by (cases "subprocess_run E ?c True None")
  with subprocess_run_events [of E ?c True] have es: "es = [Run ?c]" by simp
  from run have "snd (action_notify E (JStr m) []) = es"
    by (simp add: action_notify_def dict_get_def Let_def split: sum.splits exn.splits)
  with es show ?thesis by blast
qed

lemma say_text_events:
  "snd (action_say E (JStr m) []) =
     [Run (Argv [''say'', ''-v'', ''Samantha'', replace m (CHR 0x22) squote])]"
proof -
  let ?c = "Argv [''say'', ''-v'', ''Samantha'', replace m (CHR 0x22) squote]"
  obtain x es where run: "subprocess_run E ?c True None = (x, es)"
    by (cases "subprocess_run E ?c True None")
  with subprocess_run_events [of E ?c True] have es: "es = [Run ?c]" by simp
  from run have "snd (action_say E (JStr m) []) = es"
    by (simp add: action_say_def dict_get_def Let_def split: sum.splits exn.splits)
  with es show ?thesis by simp
qed

lemma sound_events_nonempty: "snd (action_sound E message data) \<noteq> []"
proof -
  let ?c = "Argv [''osascript'', ''-e'',
          ''do shell script '' @ dquote @ ''afplay /System/Library/Sounds/''
          @ format_value E (dict_get data ''sound'' (JStr ''Glass'')) @ ''.aiff'' @ dquote]"
  obtain x es where run: "subprocess_run E ?c True None = (x, es)"
    by (cases "subprocess_run E ?c True None")
  with subprocess_run_events [of E ?c True] have es: "es = [Run ?c]" by simp
  from run es show ?thesis
    by (simp add: action_sound_def Let_def split: sum.splits exn.splits prod.splits)
qed

lemma notify_is_no_other_handler:
  "action_notify E \<noteq> action_sound E"
  "action_notify E \<noteq> action_say E"
  "action_notify E \<noteq> action_log E"
  "action_notify E \<noteq> action_execute E"
proof -
  have n0: "snd (action_notify E (JInt 0) []) = []"
    by (simp add: action_notify_def Let_def)
  obtain script where n: "snd (action_notify E (JStr []) []) = [Run (Argv [''osascript'', ''-e'', script])]"
    using notify_text_events [of E "[]"] by blast
  show "action_notify E \<noteq> action_sound E"
  proof
    assume "action_notify E = action_sound E"
    then have "snd (action_notify E (JInt 0) []) = snd (action_sound E (JInt 0) [])" by simp
    with n0 sound_events_nonempty [of E "JInt 0" "[]"] show False by simp
  qed
  show "action_notify E \<noteq> action_say E"
  proof
    assume "action_notify E = action_say E"
    then have "snd (action_notify E (JStr []) []) = snd (action_say E (JStr []) [])" by simp
    with n say_text_events [of E "[]"] show False by simp
  qed
  show "action_notify E \<noteq> action_log E"
  proof
    assume "action_notify E = action_log E"
    then have "snd (action_notify E (JStr []) []) = snd (action_log E (JStr []) [])" by simp
    with n show False by (simp add: action_log_def)
  qed
  show "action_notify E \<noteq> action_execute E"
  proof
    assume "action_notify E = action_execute E"
    then have "snd (action_notify E (JStr []) []) = snd (action_execute E (JStr []) [])" by simp
    with n show False by (simp add: action_execute_def dict_get_def)
  qed
qed

text \<open>
  C10. The lookup of the action name is case-sensitive: a name that differs from one of
  the six registered names by letter case only, such as \<open>SOUND\<close> or \<open>Log\<close>, is not
  registered and is handled by \<open>action_notify\<close>. For \<open>sound\<close>, \<open>say\<close>, \<open>log\<close> and
  \<open>execute\<close> that is another handler than the one of the registered name; for \<open>notify\<close>
  and \<open>notification\<close> it is the handler of the registered name, so that \<open>NOTIFY\<close> is
  handled as \<open>notify\<close> is.
\<close>

theorem action_lookup_case_sensitive:
  assumes "r \<in> {''notify'', ''notification'', ''sound'', ''say'', ''log'', ''execute''}"
    and "differs_only_by_case a r"
  shows "handle_action E a message data = action_notify E message data
         \<and> (r \<in> {''sound'', ''say'', ''log'', ''execute''} \<longrightarrow>
              handle_action E a \<noteq> handle_action E r)
         \<and> (r \<in> {''notify'', ''notification''} \<longrightarrow>
              handle_action E a = handle_action E r)"
proof (intro conjI impI)
  have u: "handle_action E a = action_notify E"
    by (rule handle_action_unregistered [OF case_variant_unregistered [OF assms]])
  then show "handle_action E a message data = action_notify E message data" by simp
  {
    assume "r \<in> {''sound'', ''say'', ''log'', ''execute''}"
    then show "handle_action E a \<noteq> handle_action E r"
      by (elim insertE emptyE)
         (simp_all only: u handle_action_names notify_is_no_other_handler not_False_eq_True)
  }
  {
    assume "r \<in> {''notify'', ''notification''}"
    then show "handle_action E a = handle_action E r"
      by (elim insertE emptyE) (simp_all only: u handle_action_names)
  }
qed

theorem action_lookup_case_sensitive_witness:
  "''sound'' \<in> {''notify'', ''notification'', ''sound'', ''say'', ''log'', ''execute''}
   \<and> differs_only_by_case ''SOUND'' ''sound''
   \<and> handle_action sample_host ''SOUND'' (JStr ''hi'') [(''sound'', JStr ''Ping'')] =
       action_notify sample_host (JStr ''hi'') [(''sound'', JStr ''Ping'')]
   \<and> handle_action sample_host ''SOUND'' \<noteq> handle_action sample_host ''sound''
   \<and> ''log'' \<in> {''notify'', ''notification'', ''sound'', ''say'', ''log'', ''execute''}
   \<and> differs_only_by_case ''Log'' ''log''
   \<and> handle_action sample_host ''Log'' (JStr ''hi'') [] = action_notify sample_host (JStr ''hi'') []
   \<and> handle_action sample_host ''Log'' \<noteq> handle_action sample_host ''log''
   \<and> ''notify'' \<in> {''notify'', ''notification'', ''sound'', ''say'', ''log'', ''execute''}
   \<and> differs_only_by_case ''NOTIFY'' ''notify''
   \<and> handle_action sample_host ''NOTIFY'' (JStr ''hi'') [] =
       action_notify sample_host (JStr ''hi'') []
   \<and> handle_action sample_host ''NOTIFY'' = handle_action sample_host ''notify''"
proof -
  have s: "''sound'' \<in> {''notify'', ''notification'', ''sound'', ''say'', ''log'', ''execute''}"
    by simp
  have l: "''log'' \<in> {''notify'', ''notification'', ''sound'', ''say'', ''log'', ''execute''}"
    by simp
  have n: "''notify'' \<in> {''notify'', ''notification'', ''sound'', ''say'', ''log'', ''execute''}"
    by simp
  have s': "''sound'' \<in> {''sound'', ''say'', ''log'', ''execute''}" by simp
  have l': "''log'' \<in> {''sound'', ''say'', ''log'', ''execute''}" by simp
  have n': "''notify'' \<in> {''notify'', ''notification''}" by simp
  have ds: "differs_only_by_case ''SOUND'' ''sound''"
    by (simp add: differs_only_by_case_def ascii_lower_def)
  have dl: "differs_only_by_case ''Log'' ''log''"
    by (simp add: differs_only_by_case_def ascii_lower_def)
  have dn: "differs_only_by_case ''NOTIFY'' ''notify''"
    by (simp add: differs_only_by_case_def ascii_lower_def)
  note ts = action_lookup_case_sensitive
              [OF s ds, of sample_host "JStr ''hi''" "[(''sound'', JStr ''Ping'')]"]
  note tl = action_lookup_case_sensitive [OF l dl, of sample_host "JStr ''hi''" "[]"]
  note tn = action_lookup_case_sensitive [OF n dn, of sample_host "JStr ''hi''" "[]"]
  have s2: "handle_action sample_host ''SOUND'' \<noteq> handle_action sample_host ''sound''"
    using conjunct1 [OF conjunct2 [OF ts]] s' by (rule mp)
  have l2: "handle_action sample_host ''Log'' \<noteq> handle_action sample_host ''log''"
    using conjunct1 [OF conjunct2 [OF tl]] l' by (rule mp)
  have n2: "handle_action sample_host ''NOTIFY'' = handle_action sample_host ''notify''"
    using conjunct2 [OF conjunct2 [OF tn]] n' by (rule mp)
  from s ds conjunct1 [OF ts] s2 l dl conjunct1 [OF tl] l2 n dn conjunct1 [OF tn] n2
  show ?thesis by (intro conjI)
qed

text \<open>
  The name \<open>NOTIFY\<close> differs from \<open>notify\<close> by letter case only and is handled by the
  handler of \<open>notify\<close>.
\<close>

theorem action_lookup_case_sensitive_counterexample:
  "differs_only_by_case ''NOTIFY'' ''notify''
   \<and> handle_action sample_host ''NOTIFY'' = handle_action sample_host ''notify''"
proof
  show "differs_only_by_case ''NOTIFY'' ''notify''"
    by (simp add: differs_only_by_case_def ascii_lower_def)
  have "''NOTIFY'' \<notin> {''notify'', ''notification'', ''sound'', ''say'', ''log'', ''execute''}"
    by simp
  then have "handle_action sample_host ''NOTIFY'' = action_notify sample_host"
    by (rule handle_action_unregistered)
  then show "handle_action sample_host ''NOTIFY'' = handle_action sample_host ''notify''"
    by (simp only: handle_action_names)
qed

end
